theory Spec2Isabelle
  imports Complex_Main "HOL-Library.List_Lexorder" "HOL-Library.Char_ord"
    "HOL-Library.Option_ord" "HOL-Library.Multiset"
begin

section \<open>Python values and the formatting helpers of app.py\<close>

text \<open>
  The values that reach \<open>format_currency\<close> and \<open>format_number\<close> are cells of a pandas
  frame or the literal \<open>0\<close>: \<open>None\<close>, an integer, a float or a text. A float is carried
  by the exact rational value of the (finite) double; \<open>nan\<close> and the infinities are not
  modelled. A text is a byte string (UTF-8). The integers are Python's: unbounded, and
  divided and converted with one rounding. The counts that pandas hands over are numpy
  integers of 64 bits, which behave the same below \<open>2 ^ 53\<close>.
\<close>

datatype pyval = PNone | PInt int | PFloat rat | PStr string

datatype error = TypeError | ValueError | OverflowError | ZeroDivisionError | KeyError | IndexError

subsection \<open>IEEE double rounding\<close>

text \<open>Round to the nearest integer, ties to the even one.\<close>

definition round_half_even :: "rat \<Rightarrow> int" where
  "round_half_even x =
     (let f = \<lfloor>x\<rfloor>; d = x - of_int f
      in if d < 1 / 2 then f else if 1 / 2 < d then f + 1 else if even f then f else f + 1)"

definition pow2 :: "int \<Rightarrow> rat" where
  "pow2 e = (if 0 \<le> e then 2 ^ nat e else 1 / 2 ^ nat (- e))"

text \<open>The number of binary digits of a natural number (Python's \<open>int.bit_length\<close>).\<close>

fun bit_length :: "nat \<Rightarrow> nat" where
  "bit_length n = (if n = 0 then 0 else Suc (bit_length (n div 2)))"

text \<open>For \<open>0 < x\<close>, the integer \<open>k\<close> with \<open>2 ^ k \<le> x < 2 ^ (k + 1)\<close>.\<close>

definition ilog2 :: "rat \<Rightarrow> int" where
  "ilog2 x =
     (if 1 \<le> x then int (bit_length (nat \<lfloor>x\<rfloor>)) - 1
      else - int (bit_length (nat (\<lceil>1 / x\<rceil> - 1))))"

text \<open>
  The double nearest to a rational (53 significant bits, least exponent \<open>-1074\<close>, ties
  to even); \<open>None\<close> when the result would not be finite. This is the rounding of
  \<open>float(n)\<close> for an integer \<open>n\<close> and of the true division \<open>a / b\<close>.
\<close>

definition float_round :: "rat \<Rightarrow> rat option" where
  "float_round x =
     (if x = 0 then Some 0
      else let e = max (ilog2 \<bar>x\<bar> - 52) (- 1074);
               m = round_half_even (\<bar>x\<bar> / pow2 e);
               y = of_int m * pow2 e
           in if pow2 1024 \<le> y then None else Some (sgn x * y))"

subsection \<open>The format specifications \<open>.0f\<close>, \<open>.1f\<close> and \<open>,.0f\<close>\<close>

definition digit_char :: "nat \<Rightarrow> char" where
  "digit_char d = ''0123456789'' ! d"

fun digits :: "nat \<Rightarrow> string" where
  "digits n = (if n < 10 then [digit_char n] else digits (n div 10) @ [digit_char (n mod 10)])"

fun commas_rev :: "string \<Rightarrow> string" where
  "commas_rev (a # b # c # d # ds) = a # b # c # CHR '','' # commas_rev (d # ds)"
| "commas_rev ds = ds"

definition group_thousands :: "string \<Rightarrow> string" where
  "group_thousands ds = rev (commas_rev (rev ds))"

text \<open>
  Fixed-point rendering of a float with \<open>prec\<close> decimals: the exact value is rounded
  to \<open>prec\<close> decimals, ties to even; the sign is kept even when the digits are all zero.
\<close>

definition format_f :: "bool \<Rightarrow> nat \<Rightarrow> rat \<Rightarrow> string" where
  "format_f grouped prec x =
     (let n = nat (round_half_even (\<bar>x\<bar> * 10 ^ prec));
          ip = digits (n div 10 ^ prec);
          fp = digits (n mod 10 ^ prec)
      in (if x < 0 then ''-'' else '''')
         @ (if grouped then group_thousands ip else ip)
         @ (if prec = 0 then '''' else ''.'' @ replicate (prec - length fp) CHR ''0'' @ fp))"

text \<open>
  \<open>format(v, "[,].<prec>f")\<close>: an integer is converted to a float first (OverflowError
  beyond the doubles), \<open>None\<close> has no such format (TypeError), a text refuses the
  code \<open>f\<close> (ValueError).
\<close>

definition py_format_f :: "bool \<Rightarrow> nat \<Rightarrow> pyval \<Rightarrow> error + string" where
  "py_format_f grouped prec v =
     (case v of
        PNone \<Rightarrow> Inl TypeError
      | PStr s \<Rightarrow> Inl ValueError
      | PInt n \<Rightarrow> (case float_round (of_int n) of
                    None \<Rightarrow> Inl OverflowError
                  | Some y \<Rightarrow> Inr (format_f grouped prec y))
      | PFloat x \<Rightarrow> Inr (format_f grouped prec x))"

text \<open>\<open>v >= n\<close> for an integer literal \<open>n\<close>.\<close>

definition py_ge :: "pyval \<Rightarrow> int \<Rightarrow> error + bool" where
  "py_ge v n =
     (case v of
        PNone \<Rightarrow> Inl TypeError
      | PStr s \<Rightarrow> Inl TypeError
      | PInt a \<Rightarrow> Inr (n \<le> a)
      | PFloat x \<Rightarrow> Inr (of_int n \<le> x))"

text \<open>\<open>v / n\<close> for an integer literal \<open>n\<close>: true division, the quotient rounded once.\<close>

definition py_truediv :: "pyval \<Rightarrow> int \<Rightarrow> error + pyval" where
  "py_truediv v n =
     (case v of
        PNone \<Rightarrow> Inl TypeError
      | PStr s \<Rightarrow> Inl TypeError
      | PInt a \<Rightarrow>
          (if n = 0 then Inl ZeroDivisionError
           else case float_round (of_int a / of_int n) of
                  None \<Rightarrow> Inl OverflowError
                | Some y \<Rightarrow> Inr (PFloat y))
      | PFloat x \<Rightarrow>
          (if n = 0 then Inl ZeroDivisionError
           else case float_round (x / of_int n) of
                  None \<Rightarrow> Inl OverflowError
                | Some y \<Rightarrow> Inr (PFloat y)))"

text \<open>The rupee sign U+20B9 in UTF-8.\<close>

definition rupee :: string where
  "rupee = [CHR 0xE2, CHR 0x82, CHR 0xB9]"

text \<open>
  \<^verbatim>\<open>
  def format_currency(amount):
      if amount is None:
          return "<rupee>0"
      return f"<rupee>{amount:,.0f}"
  \<close>
\<close>

definition format_currency :: "pyval \<Rightarrow> error + string" where
  "format_currency amount =
     (if amount = PNone then Inr (rupee @ ''0'')
      else map_sum id (\<lambda>s. rupee @ s) (py_format_f True 0 amount))"

text \<open>
  \<^verbatim>\<open>
  def format_number(num):
      if num >= 1000000:
          return f"{num/1000000:.1f}M"
      elif num >= 1000:
          return f"{num/1000:.1f}K"
      else:
          return f"{num:.0f}"
  \<close>
\<close>

definition format_number :: "pyval \<Rightarrow> error + string" where
  "format_number num =
     (case py_ge num 1000000 of
        Inl e \<Rightarrow> Inl e
      | Inr True \<Rightarrow>
          (case py_truediv num 1000000 of
             Inl e \<Rightarrow> Inl e
           | Inr q \<Rightarrow> map_sum id (\<lambda>s. s @ ''M'') (py_format_f False 1 q))
      | Inr False \<Rightarrow>
          (case py_ge num 1000 of
             Inl e \<Rightarrow> Inl e
           | Inr True \<Rightarrow>
               (case py_truediv num 1000 of
                  Inl e \<Rightarrow> Inl e
                | Inr q \<Rightarrow> map_sum id (\<lambda>s. s @ ''K'') (py_format_f False 1 q))
           | Inr False \<Rightarrow> py_format_f False 0 num))"

section \<open>The cached query function\<close>

text \<open>
  A pandas frame, column by column: the column names in order, each with its cells.
  \<open>pd.DataFrame()\<close> has no column. \<open>df.empty\<close> holds when an axis has length zero: no
  column, or no row.
\<close>

type_synonym dataframe = "(string \<times> pyval list) list"

definition DataFrame :: dataframe where
  "DataFrame = []"

definition df_empty :: "dataframe \<Rightarrow> bool" where
  "df_empty df = (case df of [] \<Rightarrow> True | (c, vs) # _ \<Rightarrow> vs = [])"

text \<open>
  \<open>pd.read_sql_query(query, conn)\<close> on the database file as it is at the moment of the
  call: the frame of the result, or the exception with its message.
\<close>

type_synonym execution = "string \<Rightarrow> string + dataframe"

text \<open>
  What a render cycle leaves behind: the entries of \<open>st.cache_data\<close> for \<open>run_query\<close>,
  keyed by the argument, that is the query text; the queries executed against the
  database, in order; the messages shown by \<open>st.error\<close>, in order.
\<close>

record session =
  cache :: "string \<rightharpoonup> dataframe"
  executions :: "string list"
  errors :: "string list"

definition new_session :: session where
  "new_session = \<lparr>cache = Map.empty, executions = [], errors = []\<rparr>"

text \<open>
  The body of \<open>run_query\<close>, without its decorator:
  \<^verbatim>\<open>
      try:
          with sqlite3.connect(DB_PATH) as conn:
              return pd.read_sql_query(query, conn)
      except Exception as e:
          st.error(f"Database error: {str(e)}")
          return pd.DataFrame()
  \<close>
\<close>

definition run_query_body :: "execution \<Rightarrow> string \<Rightarrow> session \<Rightarrow> dataframe \<times> session" where
  "run_query_body db query s =
     (let s1 = s\<lparr>executions := executions s @ [query]\<rparr>
      in case db query of
           Inr df \<Rightarrow> (df, s1)
         | Inl msg \<Rightarrow> (DataFrame, s1\<lparr>errors := errors s1 @ [''Database error: '' @ msg]\<rparr>))"

text \<open>
  \<open>@st.cache_data\<close> around it: a call whose argument has an entry returns the stored
  value and does not run the body; any other call runs the body and stores what it
  returns. The decorator sees the value returned, not how the body came by it. Nothing
  in app.py clears the cache or bounds it. (Whether the decorator shows a recorded
  message again on a cache hit is left open: \<open>errors\<close> records the calls of \<open>st.error\<close>
  made by the body.)
\<close>

definition run_query :: "execution \<Rightarrow> string \<Rightarrow> session \<Rightarrow> dataframe \<times> session" where
  "run_query db query s =
     (case cache s query of
        Some df \<Rightarrow> (df, s)
      | None \<Rightarrow>
          (case run_query_body db query s of
             (df, s') \<Rightarrow> (df, s'\<lparr>cache := (cache s')(query \<mapsto> df)\<rparr>)))"

text \<open>A run of calls, each with the database as it is when the call is made.\<close>

fun run_queries :: "(execution \<times> string) list \<Rightarrow> session \<Rightarrow> session" where
  "run_queries [] s = s"
| "run_queries ((db, query) # calls) s = run_queries calls (snd (run_query db query s))"

text \<open>Two databases for the examples: one where every query fails, one that answers.\<close>

definition broken_db :: execution where
  "broken_db query = Inl ''no such table: orders''"

definition answering_db :: execution where
  "answering_db query = Inr [(''total_orders'', [PInt 3])]"

section \<open>The database and the queries of app.py\<close>

text \<open>
  Modelled from the spec: the schema, which is created by database_setup.sql (not
  among the sources). The spec gives
  \<open>customers(customer_id PK, name, email, country)\<close>,
  \<open>products(product_id PK, product_name, category, price)\<close> and
  \<open>orders(order_id PK, customer_id FK, product_id FK, quantity, order_date)\<close>.
  Every column holds a value (no NULL); keys and quantities are integers, a price is an
  exact number, a date is the ISO-8601 text that SQLite stores and compares as text.
  A table is the list of its rows. Keys and references are not built into the types:
  a theorem that needs referential integrity assumes it.
\<close>

record customer_row =
  c_customer_id :: int
  c_name :: string
  c_email :: string
  c_country :: string

record product_row =
  p_product_id :: int
  p_product_name :: string
  p_category :: string
  p_price :: rat

record order_row =
  o_order_id :: int
  o_customer_id :: int
  o_product_id :: int
  o_quantity :: int
  o_order_date :: string

record database =
  customers :: "customer_row list"
  products :: "product_row list"
  orders :: "order_row list"

text \<open>
  The two date functions of SQLite that the queries call depend on the clock and on
  SQLite's date parser; they are parameters: \<open>date('now', m)\<close> for a modifier \<open>m\<close>, and
  \<open>strftime('%Y-%m', d)\<close>, which is NULL when \<open>d\<close> is not a date.
\<close>

record sqlite =
  sql_date_now :: "string \<Rightarrow> string"
  sql_strftime_Ym :: "string \<Rightarrow> string option"

subsection \<open>The date filter\<close>

datatype date_range = AllTime | Last30Days | Last90Days | LastYear

text \<open>
  \<^verbatim>\<open>
  date_filter = ""
  if date_range == "Last 30 Days":
      date_filter = "AND o.order_date >= date('now', '-30 days')"
  elif date_range == "Last 90 Days":
      date_filter = "AND o.order_date >= date('now', '-90 days')"
  elif date_range == "Last Year":
      date_filter = "AND o.order_date >= date('now', '-1 year')"
  \<close>
  The fragment follows \<open>WHERE 1=1\<close> in every query; here it is the predicate on the
  order row that the WHERE clause then is. Texts compare byte by byte.
\<close>

definition date_filter :: "sqlite \<Rightarrow> date_range \<Rightarrow> order_row \<Rightarrow> bool" where
  "date_filter eng r ord =
     (case r of
        AllTime \<Rightarrow> True
      | Last30Days \<Rightarrow> sql_date_now eng ''-30 days'' \<le> o_order_date ord
      | Last90Days \<Rightarrow> sql_date_now eng ''-90 days'' \<le> o_order_date ord
      | LastYear \<Rightarrow> sql_date_now eng ''-1 year'' \<le> o_order_date ord)"

subsection \<open>FROM and WHERE\<close>

text \<open>\<open>FROM orders o WHERE 1=1 {date_filter}\<close>\<close>

definition from_orders :: "sqlite \<Rightarrow> date_range \<Rightarrow> database \<Rightarrow> order_row list" where
  "from_orders eng r db = [ord \<leftarrow> orders db. date_filter eng r ord]"

text \<open>\<open>FROM orders o JOIN products p ON o.product_id = p.product_id WHERE 1=1 {date_filter}\<close>\<close>

definition from_orders_products ::
  "sqlite \<Rightarrow> date_range \<Rightarrow> database \<Rightarrow> (order_row \<times> product_row) list" where
  "from_orders_products eng r db =
     [(ord, p). ord \<leftarrow> orders db, p \<leftarrow> products db,
              o_product_id ord = p_product_id p, date_filter eng r ord]"

text \<open>
  \<open>FROM orders o JOIN customers c ON o.customer_id = c.customer_id
  JOIN products p ON o.product_id = p.product_id WHERE 1=1 {date_filter}\<close>
\<close>

definition from_orders_customers_products ::
  "sqlite \<Rightarrow> date_range \<Rightarrow> database \<Rightarrow> (order_row \<times> customer_row \<times> product_row) list" where
  "from_orders_customers_products eng r db =
     [(ord, c, p). ord \<leftarrow> orders db, c \<leftarrow> customers db, o_customer_id ord = c_customer_id c,
                 p \<leftarrow> products db, o_product_id ord = p_product_id p, date_filter eng r ord]"

subsection \<open>Aggregates, grouping, ordering\<close>

text \<open>\<open>SUM\<close> and \<open>AVG\<close> of no row are NULL; \<open>COUNT\<close> of no row is 0.\<close>

definition sql_sum :: "rat list \<Rightarrow> rat option" where
  "sql_sum xs = (if xs = [] then None else Some (sum_list xs))"

definition sql_avg :: "rat list \<Rightarrow> rat option" where
  "sql_avg xs = (if xs = [] then None else Some (sum_list xs / of_nat (length xs)))"

definition count_distinct :: "'a list \<Rightarrow> nat" where
  "count_distinct xs = length (remdups xs)"

text \<open>\<open>MAX\<close> over the rows of a group.\<close>

definition sql_max :: "string list \<Rightarrow> string option" where
  "sql_max xs = (case xs of [] \<Rightarrow> None | x # ys \<Rightarrow> Some (foldl max x ys))"

text \<open>A division by zero is NULL in SQLite, not an error; so is \<open>ROUND\<close> of NULL.\<close>

definition sql_div :: "rat \<Rightarrow> rat \<Rightarrow> rat option" where
  "sql_div a b = (if b = 0 then None else Some (a / b))"

text \<open>\<open>ROUND(x, n)\<close>: to \<open>n\<close> decimals, halves away from zero.\<close>

definition round_decimals :: "nat \<Rightarrow> rat \<Rightarrow> rat" where
  "round_decimals n x = sgn x * of_int \<lfloor>\<bar>x\<bar> * 10 ^ n + 1 / 2\<rfloor> / 10 ^ n"

definition sql_round :: "rat option \<Rightarrow> nat \<Rightarrow> rat option" where
  "sql_round x n = map_option (round_decimals n) x"

text \<open>
  \<open>GROUP BY key\<close>: one group for each value of the key among the rows, with the rows
  that have it.
\<close>

definition group_by :: "('a \<Rightarrow> 'k) \<Rightarrow> 'a list \<Rightarrow> ('k \<times> 'a list) list" where
  "group_by key rows = map (\<lambda>k. (k, filter (\<lambda>r. key r = k) rows)) (remdups (map key rows))"

text \<open>
  \<open>ORDER BY key [DESC]\<close> and \<open>LIMIT n\<close>. SQL leaves the order of rows with equal keys
  open; the sort here keeps them as they were.
\<close>

definition order_by :: "('a \<Rightarrow> 'k::linorder) \<Rightarrow> 'a list \<Rightarrow> 'a list" where
  "order_by key rows = sort_key key rows"

definition order_by_desc :: "('a \<Rightarrow> 'k::linorder) \<Rightarrow> 'a list \<Rightarrow> 'a list" where
  "order_by_desc key rows = rev (sort_key key (rev rows))"

definition limit :: "nat \<Rightarrow> 'a list \<Rightarrow> 'a list" where
  "limit n rows = take n rows"

text \<open>\<open>p.price * o.quantity\<close>\<close>

definition line_total :: "order_row \<times> product_row \<Rightarrow> rat" where
  "line_total op = p_price (snd op) * of_int (o_quantity (fst op))"

definition line_total3 :: "order_row \<times> customer_row \<times> product_row \<Rightarrow> rat" where
  "line_total3 ocp = p_price (snd (snd ocp)) * of_int (o_quantity (fst ocp))"

text \<open>
  A cell of a numeric column as pandas hands it over: NULL as \<open>None\<close>, a sum or an
  average as a float (carried by its value), a count as an integer.
\<close>

definition py_real :: "rat option \<Rightarrow> pyval" where
  "py_real x = (case x of None \<Rightarrow> PNone | Some v \<Rightarrow> PFloat v)"

subsection \<open>The four key performance indicators\<close>

text \<open>
  \<^verbatim>\<open>
  SELECT SUM(p.price * o.quantity) AS total_revenue
  FROM orders o JOIN products p ON o.product_id = p.product_id
  WHERE 1=1 {date_filter};
  \<close>
\<close>

definition total_revenue_sql :: "sqlite \<Rightarrow> date_range \<Rightarrow> database \<Rightarrow> rat option" where
  "total_revenue_sql eng r db = sql_sum (map line_total (from_orders_products eng r db))"

definition revenue_df :: "sqlite \<Rightarrow> date_range \<Rightarrow> database \<Rightarrow> dataframe" where
  "revenue_df eng r db = [(''total_revenue'', [py_real (total_revenue_sql eng r db)])]"

text \<open>\<open>SELECT COUNT(DISTINCT o.order_id) AS total_orders FROM orders o WHERE 1=1 {date_filter};\<close>\<close>

definition total_orders_sql :: "sqlite \<Rightarrow> date_range \<Rightarrow> database \<Rightarrow> nat" where
  "total_orders_sql eng r db = count_distinct (map o_order_id (from_orders eng r db))"

definition orders_df :: "sqlite \<Rightarrow> date_range \<Rightarrow> database \<Rightarrow> dataframe" where
  "orders_df eng r db = [(''total_orders'', [PInt (int (total_orders_sql eng r db))])]"

text \<open>\<open>SELECT COUNT(DISTINCT o.customer_id) AS total_customers FROM orders o WHERE 1=1 {date_filter};\<close>\<close>

definition total_customers_sql :: "sqlite \<Rightarrow> date_range \<Rightarrow> database \<Rightarrow> nat" where
  "total_customers_sql eng r db = count_distinct (map o_customer_id (from_orders eng r db))"

definition customers_df :: "sqlite \<Rightarrow> date_range \<Rightarrow> database \<Rightarrow> dataframe" where
  "customers_df eng r db = [(''total_customers'', [PInt (int (total_customers_sql eng r db))])]"

text \<open>
  \<^verbatim>\<open>
  SELECT AVG(order_total) AS avg_order_value
  FROM (
      SELECT o.order_id, SUM(p.price * o.quantity) AS order_total
      FROM orders o JOIN products p ON o.product_id = p.product_id
      WHERE 1=1 {date_filter}
      GROUP BY o.order_id
  );
  \<close>
\<close>

definition order_totals :: "sqlite \<Rightarrow> date_range \<Rightarrow> database \<Rightarrow> (int \<times> rat) list" where
  "order_totals eng r db =
     map (\<lambda>(k, g). (k, sum_list (map line_total g)))
       (group_by (\<lambda>op. o_order_id (fst op)) (from_orders_products eng r db))"

definition avg_order_value_sql :: "sqlite \<Rightarrow> date_range \<Rightarrow> database \<Rightarrow> rat option" where
  "avg_order_value_sql eng r db = sql_avg (map snd (order_totals eng r db))"

definition aov_df :: "sqlite \<Rightarrow> date_range \<Rightarrow> database \<Rightarrow> dataframe" where
  "aov_df eng r db = [(''avg_order_value'', [py_real (avg_order_value_sql eng r db)])]"

text \<open>
  \<open>df[col]\<close> and \<open>.iloc[0]\<close>, and the value a metric shows:
  \<^verbatim>\<open>
  total_revenue = revenue_df['total_revenue'].iloc[0] if not revenue_df.empty else 0
  \<close>
\<close>

definition getitem :: "dataframe \<Rightarrow> string \<Rightarrow> error + pyval list" where
  "getitem df col = (case map_of df col of None \<Rightarrow> Inl KeyError | Some vs \<Rightarrow> Inr vs)"

definition iloc0 :: "pyval list \<Rightarrow> error + pyval" where
  "iloc0 vs = (case vs of [] \<Rightarrow> Inl IndexError | v # _ \<Rightarrow> Inr v)"

definition first_or_zero :: "dataframe \<Rightarrow> string \<Rightarrow> error + pyval" where
  "first_or_zero df col =
     (if \<not> df_empty df
      then (case getitem df col of Inl e \<Rightarrow> Inl e | Inr vs \<Rightarrow> iloc0 vs)
      else Inr (PInt 0))"

text \<open>The \<open>value\<close> of the four \<open>st.metric\<close> calls.\<close>

definition kpi_total_revenue :: "dataframe \<Rightarrow> error + string" where
  "kpi_total_revenue df =
     (case first_or_zero df ''total_revenue'' of Inl e \<Rightarrow> Inl e | Inr v \<Rightarrow> format_currency v)"

definition kpi_total_orders :: "dataframe \<Rightarrow> error + string" where
  "kpi_total_orders df =
     (case first_or_zero df ''total_orders'' of Inl e \<Rightarrow> Inl e | Inr v \<Rightarrow> format_number v)"

definition kpi_total_customers :: "dataframe \<Rightarrow> error + string" where
  "kpi_total_customers df =
     (case first_or_zero df ''total_customers'' of Inl e \<Rightarrow> Inl e | Inr v \<Rightarrow> format_number v)"

definition kpi_avg_order_value :: "dataframe \<Rightarrow> error + string" where
  "kpi_avg_order_value df =
     (case first_or_zero df ''avg_order_value'' of Inl e \<Rightarrow> Inl e | Inr v \<Rightarrow> format_currency v)"

subsection \<open>The charts\<close>

text \<open>
  \<^verbatim>\<open>
  SELECT strftime('%Y-%m', order_date) AS month,
         SUM(p.price * o.quantity) AS monthly_revenue,
         COUNT(DISTINCT o.order_id) AS monthly_orders
  FROM orders o JOIN products p ON o.product_id = p.product_id
  WHERE 1=1 {date_filter}
  GROUP BY month ORDER BY month;
  \<close>
  A group is never empty, so its \<open>SUM\<close> is the sum of its rows.
\<close>

definition monthly_df ::
  "sqlite \<Rightarrow> date_range \<Rightarrow> database \<Rightarrow> (string option \<times> rat \<times> nat) list" where
  "monthly_df eng r db =
     order_by fst
       (map (\<lambda>(month, g).
               (month, sum_list (map line_total g),
                count_distinct (map (\<lambda>op. o_order_id (fst op)) g)))
          (group_by (\<lambda>op. sql_strftime_Ym eng (o_order_date (fst op)))
             (from_orders_products eng r db)))"

text \<open>
  \<^verbatim>\<open>
  SELECT p.product_name, SUM(o.quantity) AS total_sold,
         SUM(p.price * o.quantity) AS total_revenue
  FROM orders o JOIN products p ON o.product_id = p.product_id
  WHERE 1=1 {date_filter}
  GROUP BY p.product_name ORDER BY total_sold DESC LIMIT 5;
  \<close>
\<close>

definition top_products_df ::
  "sqlite \<Rightarrow> date_range \<Rightarrow> database \<Rightarrow> (string \<times> int \<times> rat) list" where
  "top_products_df eng r db =
     limit 5
       (order_by_desc (\<lambda>row. fst (snd row))
          (map (\<lambda>(product_name, g).
                  (product_name, sum_list (map (\<lambda>op. o_quantity (fst op)) g),
                   sum_list (map line_total g)))
             (group_by (\<lambda>op. p_product_name (snd op)) (from_orders_products eng r db))))"

text \<open>
  \<^verbatim>\<open>
  SELECT c.country, SUM(p.price * o.quantity) AS revenue,
         COUNT(DISTINCT o.customer_id) AS customers,
         COUNT(DISTINCT o.order_id) AS orders
  FROM orders o JOIN customers c ON o.customer_id = c.customer_id
  JOIN products p ON o.product_id = p.product_id
  WHERE 1=1 {date_filter}
  GROUP BY c.country ORDER BY revenue DESC LIMIT 10;
  \<close>
\<close>

definition country_df ::
  "sqlite \<Rightarrow> date_range \<Rightarrow> database \<Rightarrow> (string \<times> rat \<times> nat \<times> nat) list" where
  "country_df eng r db =
     limit 10
       (order_by_desc (\<lambda>row. fst (snd row))
          (map (\<lambda>(country, g).
                  (country, sum_list (map line_total3 g),
                   count_distinct (map (\<lambda>ocp. o_customer_id (fst ocp)) g),
                   count_distinct (map (\<lambda>ocp. o_order_id (fst ocp)) g)))
             (group_by (\<lambda>ocp. c_country (fst (snd ocp)))
                (from_orders_customers_products eng r db))))"

text \<open>
  \<^verbatim>\<open>
  SELECT CASE WHEN total_spent >= 10000 THEN 'VIP'
              WHEN total_spent >= 5000 THEN 'Premium'
              WHEN total_spent >= 1000 THEN 'Regular'
              ELSE 'New' END AS segment,
         COUNT(*) AS customer_count,
         AVG(total_spent) AS avg_spending
  FROM (
      SELECT c.customer_id, SUM(p.price * o.quantity) AS total_spent
      FROM orders o JOIN customers c ON o.customer_id = c.customer_id
      JOIN products p ON o.product_id = p.product_id
      WHERE 1=1 {date_filter}
      GROUP BY c.customer_id
  ) customer_totals
  GROUP BY segment ORDER BY avg_spending DESC;
  \<close>
\<close>

definition customer_totals :: "sqlite \<Rightarrow> date_range \<Rightarrow> database \<Rightarrow> (int \<times> rat) list" where
  "customer_totals eng r db =
     map (\<lambda>(customer_id, g). (customer_id, sum_list (map line_total3 g)))
       (group_by (\<lambda>ocp. c_customer_id (fst (snd ocp)))
          (from_orders_customers_products eng r db))"

definition segment_case :: "rat \<Rightarrow> string" where
  "segment_case total_spent =
     (if 10000 \<le> total_spent then ''VIP''
      else if 5000 \<le> total_spent then ''Premium''
      else if 1000 \<le> total_spent then ''Regular''
      else ''New'')"

record segment_row =
  segment :: string
  customer_count :: nat
  avg_spending :: rat

definition customer_segments_df :: "sqlite \<Rightarrow> date_range \<Rightarrow> database \<Rightarrow> segment_row list" where
  "customer_segments_df eng r db =
     order_by_desc avg_spending
       (map (\<lambda>(seg, g).
               \<lparr>segment = seg, customer_count = length g,
                avg_spending = sum_list (map snd g) / of_nat (length g)\<rparr>)
          (group_by (\<lambda>ct. segment_case (snd ct)) (customer_totals eng r db)))"

subsection \<open>The detailed tables\<close>

text \<open>
  \<^verbatim>\<open>
  SELECT c.name, c.email, c.country,
         COUNT(o.order_id) AS total_orders, SUM(o.quantity) AS total_items,
         SUM(p.price * o.quantity) AS total_spent,
         MAX(o.order_date) AS last_order_date
  FROM orders o JOIN customers c ON o.customer_id = c.customer_id
  JOIN products p ON o.product_id = p.product_id
  WHERE 1=1 {date_filter}
  GROUP BY c.customer_id, c.name, c.email, c.country
  ORDER BY total_spent DESC LIMIT 10;
  \<close>
  The key of a group is all four columns of the customer, that is the customer row.
\<close>

record top_customer_row =
  tc_name :: string
  tc_email :: string
  tc_country :: string
  tc_total_orders :: nat
  tc_total_items :: int
  tc_total_spent :: rat
  tc_last_order_date :: "string option"

definition top_customers_df ::
  "sqlite \<Rightarrow> date_range \<Rightarrow> database \<Rightarrow> top_customer_row list" where
  "top_customers_df eng r db =
     limit 10
       (order_by_desc tc_total_spent
          (map (\<lambda>(c, g).
                  \<lparr>tc_name = c_name c, tc_email = c_email c, tc_country = c_country c,
                   tc_total_orders = length g,
                   tc_total_items = sum_list (map (\<lambda>ocp. o_quantity (fst ocp)) g),
                   tc_total_spent = sum_list (map line_total3 g),
                   tc_last_order_date = sql_max (map (\<lambda>ocp. o_order_date (fst ocp)) g)\<rparr>)
             (group_by (\<lambda>ocp. fst (snd ocp)) (from_orders_customers_products eng r db))))"

text \<open>
  \<^verbatim>\<open>
  SELECT p.product_name, p.category, p.price,
         SUM(o.quantity) AS units_sold,
         SUM(p.price * o.quantity) AS total_revenue,
         COUNT(DISTINCT o.customer_id) AS unique_customers,
         ROUND(SUM(p.price * o.quantity) * 1.0 / SUM(o.quantity), 2) AS avg_selling_price
  FROM orders o JOIN products p ON o.product_id = p.product_id
  WHERE 1=1 {date_filter}
  GROUP BY p.product_id, p.product_name, p.category, p.price
  ORDER BY total_revenue DESC;
  \<close>
  The key of a group is all four columns of the product, that is the product row.
\<close>

record performance_row =
  pp_product_name :: string
  pp_category :: string
  pp_price :: rat
  units_sold :: int
  total_revenue :: rat
  unique_customers :: nat
  avg_selling_price :: "rat option"

definition product_performance_df ::
  "sqlite \<Rightarrow> date_range \<Rightarrow> database \<Rightarrow> performance_row list" where
  "product_performance_df eng r db =
     order_by_desc total_revenue
       (map (\<lambda>(p, g).
               \<lparr>pp_product_name = p_product_name p, pp_category = p_category p,
                pp_price = p_price p,
                units_sold = sum_list (map (\<lambda>op. o_quantity (fst op)) g),
                total_revenue = sum_list (map line_total g),
                unique_customers = count_distinct (map (\<lambda>op. o_customer_id (fst op)) g),
                avg_selling_price =
                  sql_round
                    (sql_div (sum_list (map line_total g) * 1)
                       (of_int (sum_list (map (\<lambda>op. o_quantity (fst op)) g)))) 2\<rparr>)
          (group_by snd (from_orders_products eng r db)))"

text \<open>
  \<^verbatim>\<open>
  SELECT o.order_id, o.order_date, c.name AS customer_name, p.product_name,
         o.quantity, p.price, (p.price * o.quantity) AS order_value
  FROM orders o JOIN customers c ON o.customer_id = c.customer_id
  JOIN products p ON o.product_id = p.product_id
  WHERE 1=1 {date_filter}
  ORDER BY o.order_date DESC LIMIT 20;
  \<close>
\<close>

definition recent_orders_df ::
  "sqlite \<Rightarrow> date_range \<Rightarrow> database \<Rightarrow> (int \<times> string \<times> string \<times> string \<times> int \<times> rat \<times> rat) list" where
  "recent_orders_df eng r db =
     map (\<lambda>ocp. (o_order_id (fst ocp), o_order_date (fst ocp), c_name (fst (snd ocp)),
                 p_product_name (snd (snd ocp)), o_quantity (fst ocp),
                 p_price (snd (snd ocp)), line_total3 ocp))
       (limit 20
          (order_by_desc (\<lambda>ocp. o_order_date (fst ocp))
             (from_orders_customers_products eng r db)))"

subsection \<open>Data for the examples\<close>

definition example_engine :: sqlite where
  "example_engine =
     \<lparr>sql_date_now = (\<lambda>modifier. ''2024-06-01''),
      sql_strftime_Ym = (\<lambda>d. Some (take 7 d))\<rparr>"

definition empty_database :: database where
  "empty_database = \<lparr>customers = [], products = [], orders = []\<rparr>"

definition asha :: customer_row where
  "asha = \<lparr>c_customer_id = 1, c_name = ''Asha'', c_email = ''asha@example.com'',
           c_country = ''India''\<rparr>"

definition ben :: customer_row where
  "ben = \<lparr>c_customer_id = 2, c_name = ''Ben'', c_email = ''ben@example.com'',
          c_country = ''UK''\<rparr>"

definition laptop :: product_row where
  "laptop = \<lparr>p_product_id = 10, p_product_name = ''Laptop'', p_category = ''Electronics'',
             p_price = 60000\<rparr>"

definition pen :: product_row where
  "pen = \<lparr>p_product_id = 11, p_product_name = ''Pen'', p_category = ''Stationery'',
          p_price = 25 / 2\<rparr>"

definition voucher :: product_row where
  "voucher = \<lparr>p_product_id = 12, p_product_name = ''Voucher'', p_category = ''Gifts'',
              p_price = 500\<rparr>"

definition order100 :: order_row where
  "order100 = \<lparr>o_order_id = 100, o_customer_id = 1, o_product_id = 10, o_quantity = 1,
               o_order_date = ''2024-06-10''\<rparr>"

definition order101 :: order_row where
  "order101 = \<lparr>o_order_id = 101, o_customer_id = 1, o_product_id = 11, o_quantity = 4,
               o_order_date = ''2024-01-05''\<rparr>"

definition order102 :: order_row where
  "order102 = \<lparr>o_order_id = 102, o_customer_id = 2, o_product_id = 11, o_quantity = 2,
               o_order_date = ''2024-06-15''\<rparr>"

definition order103 :: order_row where
  "order103 = \<lparr>o_order_id = 103, o_customer_id = 2, o_product_id = 12, o_quantity = 0,
               o_order_date = ''2024-06-20''\<rparr>"

definition shop_database :: database where
  "shop_database =
     \<lparr>customers = [asha, ben], products = [laptop, pen, voucher],
      orders = [order100, order101, order102, order103]\<rparr>"

section \<open>Properties of the rounding model\<close>

lemma floor_rat_numeral [simp]:
  "\<lfloor>numeral a / numeral b :: rat\<rfloor> = numeral a div numeral b"
  by (metis floor_divide_of_int_eq of_int_numeral)

lemma ceiling_rat_numeral [simp]:
  "\<lceil>numeral a / numeral b :: rat\<rceil> = - (- numeral a div numeral b)"
  by (metis ceiling_divide_eq_div of_int_numeral)

declare bit_length.simps [simp del]

lemma bit_length_0 [simp]: "bit_length 0 = 0"
  by (simp add: bit_length.simps)

lemma bit_length_pos: "0 < n \<Longrightarrow> bit_length n = Suc (bit_length (n div 2))"
  by (subst bit_length.simps) simp

lemma bit_length_upper: "n < 2 ^ bit_length n"
proof (induction n rule: bit_length.induct)
  case (1 n)
  show ?case
  proof (cases "n = 0")
    case True
    then show ?thesis by simp
  next
    case False
    with 1 have "n div 2 < 2 ^ bit_length (n div 2)" by simp
    then have "n < 2 * 2 ^ bit_length (n div 2)" by linarith
    with False show ?thesis by (simp add: bit_length_pos)
  qed
qed

lemma bit_length_lower: "0 < n \<Longrightarrow> 2 ^ (bit_length n - 1) \<le> n"
proof (induction n rule: bit_length.induct)
  case (1 n)
  show ?case
  proof (cases "n div 2 = 0")
    case True
    with 1 have "n = 1" by linarith
    then show ?thesis by (simp add: bit_length_pos)
  next
    case False
    with 1 have ih: "2 ^ (bit_length (n div 2) - 1) \<le> n div 2" by simp
    from False have "0 < bit_length (n div 2)" by (simp add: bit_length_pos)
    then have "(2::nat) ^ bit_length (n div 2) = 2 * 2 ^ (bit_length (n div 2) - 1)"
      by (cases "bit_length (n div 2)") simp_all
    with ih have "2 ^ bit_length (n div 2) \<le> n" by linarith
    with 1 show ?thesis by (simp add: bit_length_pos)
  qed
qed

lemma pow2_powi: "pow2 e = 2 powi e"
  by (simp add: pow2_def power_int_def inverse_eq_divide power_one_over)

lemma pow2_pos [simp]: "0 < pow2 e"
  by (simp add: pow2_powi)

lemma pow2_mono: "a \<le> b \<Longrightarrow> pow2 a \<le> pow2 b"
  by (simp add: pow2_powi power_int_increasing)

lemma pow2_less_imp: "pow2 a < pow2 b \<Longrightarrow> a < b"
  using pow2_mono [of b a] by (cases "a < b") auto

lemma pow2_nat: "pow2 (int k) = 2 ^ k"
  by (simp add: pow2_def)

lemma round_half_even_of_int [simp]: "round_half_even (of_int n) = n"
  by (simp add: round_half_even_def)

lemma round_half_even_bound: "\<bar>of_int (round_half_even x) - x\<bar> \<le> 1 / 2"
proof -
  have "of_int \<lfloor>x\<rfloor> \<le> x" "x < of_int \<lfloor>x\<rfloor> + 1" by linarith+
  then show ?thesis
    by (auto simp: round_half_even_def Let_def)
qed

lemma ilog2_bounds:
  assumes "0 < x"
  shows "pow2 (ilog2 x) \<le> x" and "x < pow2 (ilog2 x + 1)"
proof -
  have "pow2 (ilog2 x) \<le> x \<and> x < pow2 (ilog2 x + 1)"
  proof (cases "1 \<le> x")
    case True
    define n where "n = nat \<lfloor>x\<rfloor>"
    have n: "0 < n" "of_nat n \<le> x" "x < of_nat n + 1"
      using True by (simp_all add: n_def) linarith+
    have il: "ilog2 x = int (bit_length n) - 1"
      using True by (simp add: ilog2_def n_def)
    have bl: "0 < bit_length n" using n(1) by (simp add: bit_length_pos)
    then have e1: "pow2 (ilog2 x) = 2 ^ (bit_length n - 1)"
      using pow2_nat [of "bit_length n - 1"] by (simp add: il)
    have e2: "pow2 (ilog2 x + 1) = 2 ^ bit_length n"
      using pow2_nat [of "bit_length n"] by (simp add: il)
    have "(2::rat) ^ (bit_length n - 1) = of_nat (2 ^ (bit_length n - 1))" by simp
    also have "\<dots> \<le> of_nat n"
      using bit_length_lower [OF n(1)] of_nat_le_iff by blast
    finally have lo: "(2::rat) ^ (bit_length n - 1) \<le> x" using n(2) by linarith
    have "n + 1 \<le> 2 ^ bit_length n" using bit_length_upper [of n] by simp
    then have "(of_nat (n + 1) :: rat) \<le> of_nat (2 ^ bit_length n)"
      using of_nat_le_iff by blast
    then have hi: "x < 2 ^ bit_length n" using n(3) by simp
    from lo hi show ?thesis by (simp add: e1 e2)
  next
    case False
    define y where "y = 1 / x"
    define n where "n = nat (\<lceil>y\<rceil> - 1)"
    have y: "1 < y" using False assms by (simp add: y_def)
    then have c: "2 \<le> \<lceil>y\<rceil>" by linarith
    have n: "0 < n" "of_nat n < y" "y \<le> of_nat n + 1"
      using c by (simp_all add: n_def) linarith+
    have il: "ilog2 x = - int (bit_length n)"
      using False by (simp add: ilog2_def n_def y_def)
    have bl: "0 < bit_length n" using n(1) by (simp add: bit_length_pos)
    have e1: "pow2 (ilog2 x) = 1 / 2 ^ bit_length n"
      using bl by (simp add: il pow2_def)
    have e2: "pow2 (ilog2 x + 1) = 1 / 2 ^ (bit_length n - 1)"
    proof (cases "bit_length n = 1")
      case True
      then show ?thesis by (simp add: il pow2_def)
    next
      case False
      with bl have "nat (int (bit_length n) - 1) = bit_length n - 1"
        by simp
      with bl False show ?thesis by (simp add: il pow2_def nat_diff_distrib)
    qed
    have "(2::rat) ^ (bit_length n - 1) = of_nat (2 ^ (bit_length n - 1))" by simp
    also have "\<dots> \<le> of_nat n"
      using bit_length_lower [OF n(1)] of_nat_le_iff by blast
    finally have lo: "(2::rat) ^ (bit_length n - 1) < y" using n(2) by linarith
    have "n + 1 \<le> 2 ^ bit_length n" using bit_length_upper [of n] by simp
    then have "(of_nat (n + 1) :: rat) \<le> of_nat (2 ^ bit_length n)"
      using of_nat_le_iff by blast
    then have hi: "y \<le> 2 ^ bit_length n" using n(3) by simp
    have x: "x = 1 / y" by (simp add: y_def)
    have "1 / 2 ^ bit_length n \<le> x"
      unfolding x using hi y by (simp add: frac_le)
    moreover have "x < 1 / 2 ^ (bit_length n - 1)"
      unfolding x using lo by (simp add: frac_less2)
    ultimately show ?thesis by (simp add: e1 e2)
  qed
  then show "pow2 (ilog2 x) \<le> x" and "x < pow2 (ilog2 x + 1)" by simp_all
qed

lemma pow2_nonzero [simp]: "pow2 e \<noteq> 0"
  by (metis less_irrefl pow2_pos)

lemma abs_pow2 [simp]: "\<bar>pow2 e\<bar> = pow2 e"
  by (rule abs_of_pos) simp

lemma div_pow2_cancel: "(u - a / pow2 e) * pow2 e = u * pow2 e - a"
  by (simp add: left_diff_distrib)

lemma ilog2_less: assumes "0 < x" "x < pow2 k" shows "ilog2 x < k"
proof -
  have "pow2 (ilog2 x) < pow2 k" using ilog2_bounds(1) [OF assms(1)] assms(2) by linarith
  then show ?thesis by (rule pow2_less_imp)
qed

lemma ilog2_ge: assumes "0 < x" "pow2 k \<le> x" shows "k \<le> ilog2 x"
proof -
  have "pow2 k < pow2 (ilog2 x + 1)" using ilog2_bounds(2) [OF assms(1)] assms(2) by linarith
  then have "k < ilog2 x + 1" by (rule pow2_less_imp)
  then show ?thesis by simp
qed

lemma float_round_exact:
  assumes "x \<noteq> 0" and "\<bar>x\<bar> < pow2 1024"
    and "\<bar>x\<bar> / pow2 (max (ilog2 \<bar>x\<bar> - 52) (- 1074)) = of_int m"
  shows "float_round x = Some x"
proof -
  define e where "e = max (ilog2 \<bar>x\<bar> - 52) (- 1074)"
  have q: "\<bar>x\<bar> / pow2 e = of_int m" using assms(3) by (simp add: e_def)
  then have "of_int m * pow2 e = \<bar>x\<bar>"
    using pow2_pos [of e] by (simp add: field_simps)
  moreover have "sgn x * \<bar>x\<bar> = x" by (simp add: sgn_if)
  ultimately show ?thesis
    using assms(1,2) unfolding float_round_def Let_def e_def [symmetric] q
    by simp
qed

lemma float_round_of_int:
  assumes "\<bar>n\<bar> < 2 ^ 53"
  shows "float_round (of_int n) = Some (of_int n)"
proof (cases "n = 0")
  case True
  then show ?thesis by (simp add: float_round_def)
next
  case False
  define a :: rat where "a = \<bar>of_int n\<bar>"
  have a: "1 \<le> a" "a < pow2 53" "a = of_int \<bar>n\<bar>"
  proof -
    show "a = of_int \<bar>n\<bar>" by (simp add: a_def)
    have "1 \<le> \<bar>n\<bar>" using False by simp
    then have "(of_int 1 :: rat) \<le> of_int \<bar>n\<bar>" by (simp only: of_int_le_iff)
    then show "1 \<le> a" by (simp add: a_def)
    have "(of_int \<bar>n\<bar> :: rat) < of_int (2 ^ 53)" using assms by (simp only: of_int_less_iff)
    then show "a < pow2 53" by (simp add: a_def pow2_def)
  qed
  have lo: "0 \<le> ilog2 a" using ilog2_ge [of a 0] a(1) by (simp add: pow2_def)
  have hi: "ilog2 a < 53" using ilog2_less [of a 53] a(1,2) by simp
  define k where "k = nat (52 - ilog2 a)"
  have e: "max (ilog2 a - 52) (- 1074) = - int k" using lo hi by (simp add: k_def)
  have "a / pow2 (- int k) = of_int (\<bar>n\<bar> * 2 ^ k)"
    by (simp add: pow2_def a(3))
  moreover have "a < pow2 1024"
    using a(2) pow2_mono [of 53 1024] by simp
  ultimately show ?thesis
    using float_round_exact [of "of_int n" "\<bar>n\<bar> * 2 ^ k"] False
    by (simp add: a_def [symmetric] e)
qed

lemma float_round_finite:
  assumes "\<bar>x\<bar> < pow2 1023"
  shows "\<exists>y. float_round x = Some y"
proof (cases "x = 0")
  case True
  then show ?thesis by (simp add: float_round_def)
next
  case False
  define a where "a = \<bar>x\<bar>"
  define e where "e = max (ilog2 a - 52) (- 1074)"
  define m where "m = round_half_even (a / pow2 e)"
  have a: "0 < a" "a < pow2 1023" using False assms by (simp_all add: a_def)
  have "ilog2 a < 1023" using ilog2_less [OF a] .
  then have "e \<le> 970" by (simp add: e_def)
  then have pe: "pow2 e \<le> pow2 970" by (rule pow2_mono)
  have "\<bar>of_int m - a / pow2 e\<bar> \<le> 1 / 2"
    using round_half_even_bound [of "a / pow2 e"] by (simp add: m_def)
  then have "of_int m - a / pow2 e \<le> 1 / 2" by linarith
  then have "(of_int m - a / pow2 e) * pow2 e \<le> 1 / 2 * pow2 e"
    using pow2_pos [of e] by (simp only: mult_le_cancel_right_pos)
  then have "of_int m * pow2 e \<le> a + pow2 e / 2"
    by (simp add: div_pow2_cancel)
  also have "\<dots> \<le> a + pow2 970 / 2" using pe by simp
  also have "\<dots> < pow2 1023 + pow2 970 / 2" using a(2) by simp
  also have "\<dots> < pow2 1024" by (simp add: pow2_def)
  finally have "\<not> pow2 1024 \<le> of_int m * pow2 e" by simp
  then show ?thesis
    using False unfolding float_round_def Let_def a_def [symmetric] e_def [symmetric] m_def [symmetric]
    by simp
qed

lemma float_round_error:
  assumes "float_round x = Some y" and "x \<noteq> 0"
  shows "\<bar>y - x\<bar> \<le> pow2 (max (ilog2 \<bar>x\<bar> - 52) (- 1074)) / 2"
proof -
  define a where "a = \<bar>x\<bar>"
  define e where "e = max (ilog2 a - 52) (- 1074)"
  define m where "m = round_half_even (a / pow2 e)"
  have y: "y = sgn x * (of_int m * pow2 e)"
    using assms unfolding float_round_def Let_def a_def [symmetric] e_def [symmetric] m_def [symmetric]
    by (simp split: if_splits)
  have "\<bar>of_int m - a / pow2 e\<bar> \<le> 1 / 2"
    using round_half_even_bound [of "a / pow2 e"] by (simp add: m_def)
  then have "\<bar>of_int m - a / pow2 e\<bar> * pow2 e \<le> 1 / 2 * pow2 e"
    using pow2_pos [of e] by (simp only: mult_le_cancel_right_pos)
  moreover have "\<bar>of_int m - a / pow2 e\<bar> * pow2 e = \<bar>of_int m * pow2 e - a\<bar>"
    using pow2_pos [of e] abs_mult [of "of_int m - a / pow2 e" "pow2 e"]
    by (simp add: div_pow2_cancel)
  ultimately have "\<bar>of_int m * pow2 e - a\<bar> \<le> pow2 e / 2" by simp
  moreover have "\<bar>y - x\<bar> = \<bar>of_int m * pow2 e - a\<bar>"
    using assms(2) by (simp add: y a_def sgn_if abs_if)
  ultimately show ?thesis by (simp add: a_def e_def)
qed

lemmas float_eval =
  float_round_def ilog2_def pow2_def round_half_even_def format_f_def group_thousands_def
  digit_char_def py_format_f_def py_ge_def py_truediv_def Let_def bit_length.simps

lemma format_f_of_int:
  "format_f False 0 (of_int n) = (if n < 0 then ''-'' else '''') @ digits (nat \<bar>n\<bar>)"
proof -
  have "\<bar>rat_of_int n\<bar> = of_int \<bar>n\<bar>" by simp
  then show ?thesis
    unfolding format_f_def Let_def by (simp del: of_int_abs)
qed

lemma float_round_quotient:
  assumes "2 \<le> d" and "\<bar>q\<bar> < pow2 1024"
  shows "\<exists>y. float_round (q / d) = Some y"
proof -
  have "\<bar>q\<bar> * 2 \<le> \<bar>q\<bar> * d" using assms(1) by (intro mult_left_mono) simp_all
  then have "\<bar>q / d\<bar> * 2 \<le> \<bar>q\<bar>" using assms(1) by (simp add: field_simps)
  then have "\<bar>q / d\<bar> * 2 < pow2 1024" using assms(2) by (rule le_less_trans)
  moreover have "pow2 1024 = pow2 1023 * 2" by (simp add: pow2_def)
  ultimately have "\<bar>q / d\<bar> * 2 < pow2 1023 * 2" by (simp only:)
  then have "\<bar>q / d\<bar> < pow2 1023" by (simp only: mult_less_cancel_right_pos zero_less_numeral)
  then show ?thesis by (rule float_round_finite)
qed

lemma format_number_int:
  "format_number (PInt x) =
     (if 1000000 \<le> x
      then case float_round (of_int x / 1000000) of
             None \<Rightarrow> Inl OverflowError
           | Some y \<Rightarrow> Inr (format_f False 1 y @ ''M'')
      else if 1000 \<le> x
      then case float_round (of_int x / 1000) of
             None \<Rightarrow> Inl OverflowError
           | Some y \<Rightarrow> Inr (format_f False 1 y @ ''K'')
      else case float_round (of_int x) of
             None \<Rightarrow> Inl OverflowError
           | Some y \<Rightarrow> Inr (format_f False 0 y))"
  by (simp add: format_number_def py_ge_def py_truediv_def py_format_f_def split: option.splits)

lemma format_number_float:
  "format_number (PFloat q) =
     (if 1000000 \<le> q
      then case float_round (q / 1000000) of
             None \<Rightarrow> Inl OverflowError
           | Some y \<Rightarrow> Inr (format_f False 1 y @ ''M'')
      else if 1000 \<le> q
      then case float_round (q / 1000) of
             None \<Rightarrow> Inl OverflowError
           | Some y \<Rightarrow> Inr (format_f False 1 y @ ''K'')
      else Inr (format_f False 0 q))"
  by (simp add: format_number_def py_ge_def py_truediv_def py_format_f_def split: option.splits)

section \<open>Properties of the cache\<close>

lemma run_query_hit:
  "cache s q = Some df \<Longrightarrow> run_query db q s = (df, s)"
  by (simp add: run_query_def)

lemma run_query_stores:
  "cache (snd (run_query db q s)) q = Some (fst (run_query db q s))"
  by (auto simp: run_query_def run_query_body_def Let_def split: option.splits sum.splits)

lemma run_query_keeps:
  "cache s q = Some df \<Longrightarrow> cache (snd (run_query db' q' s)) q = Some df"
  by (auto simp: run_query_def run_query_body_def Let_def split: option.splits sum.splits)

lemma run_queries_keeps:
  "cache s q = Some df \<Longrightarrow> cache (run_queries calls s) q = Some df"
proof (induction calls arbitrary: s)
  case Nil
  then show ?case by simp
next
  case (Cons call calls)
  obtain db' q' where call: "call = (db', q')" by (cases call)
  from Cons.prems have "cache (snd (run_query db' q' s)) q = Some df"
    by (rule run_query_keeps)
  then show ?case unfolding call by (simp add: Cons.IH)
qed

lemma broken_first_call:
  "run_query broken_db ''SELECT 1'' new_session
     = (DataFrame, \<lparr>cache = [''SELECT 1'' \<mapsto> DataFrame], executions = [''SELECT 1''],
                   errors = [''Database error: no such table: orders'']\<rparr>)"
  by (simp add: run_query_def run_query_body_def new_session_def broken_db_def Let_def)

section \<open>Claims about the formatting helpers\<close>

text \<open>
  C9: \<open>format_currency(None)\<close> and \<open>format_currency(0)\<close> both return the zero-display
  string, the rupee sign followed by \<open>0\<close>, and \<open>format_currency(1234567)\<close> returns the
  rupee sign followed by the grouped integer \<open>1,234,567\<close>, with no decimal places.
\<close>

theorem format_currency_examples:
  "format_currency PNone = Inr (rupee @ ''0'')
   \<and> format_currency (PInt 0) = Inr (rupee @ ''0'')
   \<and> format_currency (PInt 1234567) = Inr (rupee @ ''1,234,567'')"
  by (simp add: format_currency_def float_eval)

text \<open>
  C3, as the claim states it, fails: \<open>format_number(None)\<close> has no fallback. The
  comparison \<open>None >= 1000000\<close> raises TypeError before anything is formatted.
\<close>

theorem format_number_None_raises:
  "format_number PNone = Inl TypeError"
  by (simp add: format_number_def py_ge_def)

text \<open>
  C3, amended: \<open>format_currency\<close> applied to \<open>None\<close> or to zero and \<open>format_number\<close>
  applied to zero (the integer or the float) return a defined string and raise nothing.
\<close>

theorem formatting_fallbacks:
  "format_currency PNone = Inr (rupee @ ''0'')
   \<and> format_currency (PInt 0) = Inr (rupee @ ''0'')
   \<and> format_currency (PFloat 0) = Inr (rupee @ ''0'')
   \<and> format_number (PInt 0) = Inr ''0''
   \<and> format_number (PFloat 0) = Inr ''0''"
  by (simp add: format_currency_def format_number_def float_eval)

text \<open>
  C10: \<open>format_number\<close> on a number \<open>x\<close>, an integer or a float: from 1,000,000 on,
  \<open>x / 1000000\<close> with one decimal and the suffix \<open>M\<close>; from 1,000 up to 1,000,000,
  \<open>x / 1000\<close> with one decimal and the suffix \<open>K\<close>; below 1,000 the rendering of \<open>x\<close> with
  no decimal and no suffix, which for an integer above \<open>- (2 ^ 53)\<close> is its decimal
  numeral. The quotient is the double nearest to the exact one (\<open>float_round\<close>); it exists
  for every \<open>x\<close> in the range of the doubles, and beyond it the conversion raises
  OverflowError, as the formatted expression itself does. The examples hold: 999, 1.5K
  and 2.3M.
\<close>

theorem format_number_spec:
  fixes x :: int and q :: rat
  shows
    "(1000000 \<le> x \<longrightarrow>
        format_number (PInt x) =
          (case float_round (of_int x / 1000000) of
             None \<Rightarrow> Inl OverflowError
           | Some y \<Rightarrow> Inr (format_f False 1 y @ ''M'')))
     \<and> (1000000 \<le> x \<and> x < 2 ^ 1024 \<longrightarrow> (\<exists>y. float_round (of_int x / 1000000) = Some y))
     \<and> (1000 \<le> x \<and> x < 1000000 \<longrightarrow>
        (\<exists>y. float_round (of_int x / 1000) = Some y
           \<and> format_number (PInt x) = Inr (format_f False 1 y @ ''K'')))
     \<and> (x < 1000 \<longrightarrow>
        format_number (PInt x) =
          (case float_round (of_int x) of
             None \<Rightarrow> Inl OverflowError
           | Some y \<Rightarrow> Inr (format_f False 0 y)))
     \<and> (- (2 ^ 53) < x \<and> x < 1000 \<longrightarrow>
        format_number (PInt x) = Inr ((if x < 0 then ''-'' else '''') @ digits (nat \<bar>x\<bar>)))
     \<and> (1000000 \<le> q \<and> q < pow2 1024 \<longrightarrow>
        (\<exists>y. float_round (q / 1000000) = Some y
           \<and> format_number (PFloat q) = Inr (format_f False 1 y @ ''M'')))
     \<and> (1000 \<le> q \<and> q < 1000000 \<longrightarrow>
        (\<exists>y. float_round (q / 1000) = Some y
           \<and> format_number (PFloat q) = Inr (format_f False 1 y @ ''K'')))
     \<and> (q < 1000 \<longrightarrow> format_number (PFloat q) = Inr (format_f False 0 q))
     \<and> format_number (PInt 999) = Inr ''999''
     \<and> format_number (PInt 1500) = Inr ''1.5K''
     \<and> format_number (PInt 2300000) = Inr ''2.3M''"
proof -
  have i_m: "format_number (PInt x) =
          (case float_round (of_int x / 1000000) of
             None \<Rightarrow> Inl OverflowError
           | Some y \<Rightarrow> Inr (format_f False 1 y @ ''M''))"
    if "1000000 \<le> x"
    using that by (simp add: format_number_int)
  have i_f: "\<exists>y. float_round (of_int x / 1000000) = Some y"
    if "1000000 \<le> x" "x < 2 ^ 1024"
  proof -
    have "(of_int x :: rat) < of_int (2 ^ 1024)" using that(2) by (simp only: of_int_less_iff)
    then have "\<bar>of_int x :: rat\<bar> < pow2 1024" using that(1) by (simp add: pow2_def)
    then show ?thesis by (intro float_round_quotient) simp_all
  qed
  have i_k: "\<exists>y. float_round (of_int x / 1000) = Some y
           \<and> format_number (PInt x) = Inr (format_f False 1 y @ ''K'')"
    if "1000 \<le> x" "x < 1000000"
  proof -
    have "(of_int x :: rat) < of_int 1000000" using that(2) by (simp only: of_int_less_iff)
    then have "\<bar>of_int x :: rat\<bar> < pow2 1024" using that(1) by (simp add: pow2_def)
    then obtain y where "float_round (of_int x / 1000) = Some y"
      using float_round_quotient [of 1000 "of_int x"] by auto
    then show ?thesis using that by (simp add: format_number_int)
  qed
  have i_p: "format_number (PInt x) =
          (case float_round (of_int x) of
             None \<Rightarrow> Inl OverflowError
           | Some y \<Rightarrow> Inr (format_f False 0 y))"
    if "x < 1000"
    using that by (simp add: format_number_int)
  have i_d: "format_number (PInt x) = Inr ((if x < 0 then ''-'' else '''') @ digits (nat \<bar>x\<bar>))"
    if "- (2 ^ 53) < x" "x < 1000"
  proof -
    have "\<bar>x\<bar> < 2 ^ 53" using that by simp
    then have "float_round (of_int x) = Some (of_int x)" by (rule float_round_of_int)
    then show ?thesis
      using that(2) by (simp add: format_number_int format_f_of_int)
  qed
  have f_m: "\<exists>y. float_round (q / 1000000) = Some y
           \<and> format_number (PFloat q) = Inr (format_f False 1 y @ ''M'')"
    if "1000000 \<le> q" "q < pow2 1024"
  proof -
    have "\<bar>q\<bar> < pow2 1024" using that by simp
    then obtain y where "float_round (q / 1000000) = Some y"
      using float_round_quotient [of 1000000 q] by auto
    then show ?thesis using that by (simp add: format_number_float)
  qed
  have f_k: "\<exists>y. float_round (q / 1000) = Some y
           \<and> format_number (PFloat q) = Inr (format_f False 1 y @ ''K'')"
    if "1000 \<le> q" "q < 1000000"
  proof -
    have "\<bar>q\<bar> < pow2 1024" using that by (simp add: pow2_def)
    then obtain y where "float_round (q / 1000) = Some y"
      using float_round_quotient [of 1000 q] by auto
    then show ?thesis using that by (simp add: format_number_float)
  qed
  have f_p: "format_number (PFloat q) = Inr (format_f False 0 q)" if "q < 1000"
    using that by (simp add: format_number_float)
  have e1: "format_number (PInt 999) = Inr ''999''"
    by (simp add: format_number_def float_eval)
  have e2: "format_number (PInt 1500) = Inr ''1.5K''"
    by (simp add: format_number_def float_eval)
  have e3: "format_number (PInt 2300000) = Inr ''2.3M''"
    by (simp add: format_number_def float_eval)
  from i_m i_f i_k i_p i_d f_m f_k f_p e1 e2 e3 show ?thesis by blast
qed

theorem format_number_spec_witness:
  "(1000000::int) \<le> 1234567 \<and> (1234567::int) < 2 ^ 1024
   \<and> format_number (PInt 1234567) = Inr ''1.2M''
   \<and> (1000::int) \<le> 1150 \<and> (1150::int) < 1000000
   \<and> float_round (of_int 1150 / 1000) = Some (2589569785738035 / 2251799813685248)
   \<and> format_number (PInt 1150) = Inr ''1.1K''
   \<and> - (2 ^ 53) < (-42::int) \<and> (-42::int) < 1000 \<and> format_number (PInt (-42)) = Inr ''-42''
   \<and> (1000000::rat) \<le> 2500000 \<and> (2500000::rat) < pow2 1024
   \<and> format_number (PFloat 2500000) = Inr ''2.5M''
   \<and> (1000::rat) \<le> 6001 / 4 \<and> (6001 / 4 :: rat) < 1000000
   \<and> format_number (PFloat (6001 / 4)) = Inr ''1.5K''
   \<and> (1999 / 2 :: rat) < 1000 \<and> format_number (PFloat (1999 / 2)) = Inr ''1000''"
proof -
  have h0: "(1000000::int) \<le> 1234567 \<and> (1234567::int) < 2 ^ 1024" by simp
  have h1: "(1000::int) \<le> 1150 \<and> (1150::int) < 1000000" by simp
  have h2: "- (2 ^ 53) < (-42::int) \<and> (-42::int) < 1000" by simp
  have h3: "(1999 / 2 :: rat) < 1000" by simp
  have h4: "(1000000::rat) \<le> 2500000 \<and> (2500000::rat) < pow2 1024" by (simp add: pow2_def)
  have h5: "(1000::rat) \<le> 6001 / 4 \<and> (6001 / 4 :: rat) < 1000000" by simp
  have r0: "float_round (of_int 1234567 / 1000000) = Some (5559995481163911 / 4503599627370496)"
    by (simp add: float_eval)
  from format_number_spec [of 1234567 0] h0
  have "format_number (PInt 1234567) =
      (case float_round (of_int 1234567 / 1000000) of
         None \<Rightarrow> Inl OverflowError
       | Some y \<Rightarrow> Inr (format_f False 1 y @ ''M''))"
    by blast
  then have "format_number (PInt 1234567)
      = Inr (format_f False 1 (5559995481163911 / 4503599627370496) @ ''M'')"
    unfolding r0 by simp
  also have "format_f False 1 (5559995481163911 / 4503599627370496) = ''1.2''"
    by (simp add: float_eval)
  finally have m: "format_number (PInt 1234567) = Inr ''1.2M''" by simp
  have r: "float_round (of_int 1150 / 1000) = Some (2589569785738035 / 2251799813685248)"
    by (simp add: float_eval)
  from format_number_spec [of 1150 0] h1
  obtain y where y: "float_round (of_int 1150 / 1000) = Some y"
    and fy: "format_number (PInt 1150) = Inr (format_f False 1 y @ ''K'')" by blast
  from y r have "y = 2589569785738035 / 2251799813685248" by (metis option.inject)
  with fy have "format_number (PInt 1150)
      = Inr (format_f False 1 (2589569785738035 / 2251799813685248) @ ''K'')"
    by (simp only:)
  also have "format_f False 1 (2589569785738035 / 2251799813685248) = ''1.1''"
    by (simp add: float_eval)
  finally have k: "format_number (PInt 1150) = Inr ''1.1K''" by simp
  from format_number_spec [of "- 42" 0] h2
  have "format_number (PInt (- 42))
      = Inr ((if (- 42 :: int) < 0 then ''-'' else '''') @ digits (nat \<bar>- 42\<bar>))"
    by blast
  then have n: "format_number (PInt (- 42)) = Inr ''-42''"
    by (simp add: digit_char_def)
  have r4: "float_round (2500000 / 1000000) = Some (5 / 2)"
    by (simp add: float_eval)
  from format_number_spec [of 0 2500000] h4
  obtain y4 where y4: "float_round (2500000 / 1000000) = Some y4"
    and fy4: "format_number (PFloat 2500000) = Inr (format_f False 1 y4 @ ''M'')" by blast
  from y4 r4 have "y4 = 5 / 2" by (metis option.inject)
  with fy4 have "format_number (PFloat 2500000) = Inr (format_f False 1 (5 / 2) @ ''M'')"
    by (simp only:)
  also have "format_f False 1 (5 / 2) = ''2.5''"
    by (simp add: float_eval)
  finally have fm: "format_number (PFloat 2500000) = Inr ''2.5M''" by simp
  have r5: "float_round (6001 / 4 / 1000) = Some (6756525340962587 / 4503599627370496)"
    by (simp add: float_eval)
  from format_number_spec [of 0 "6001 / 4"] h5
  obtain y5 where y5: "float_round (6001 / 4 / 1000) = Some y5"
    and fy5: "format_number (PFloat (6001 / 4)) = Inr (format_f False 1 y5 @ ''K'')" by blast
  from y5 r5 have "y5 = 6756525340962587 / 4503599627370496" by (metis option.inject)
  with fy5 have "format_number (PFloat (6001 / 4))
      = Inr (format_f False 1 (6756525340962587 / 4503599627370496) @ ''K'')"
    by (simp only:)
  also have "format_f False 1 (6756525340962587 / 4503599627370496) = ''1.5''"
    by (simp add: float_eval)
  finally have fk: "format_number (PFloat (6001 / 4)) = Inr ''1.5K''" by simp
  from format_number_spec [of 0 "1999 / 2"] h3
  have "format_number (PFloat (1999 / 2)) = Inr (format_f False 0 (1999 / 2))"
    by blast
  then have f: "format_number (PFloat (1999 / 2)) = Inr ''1000''"
    by (simp add: float_eval)
  from h0 h1 h2 h3 h4 h5 r m k n fm fk f show ?thesis by blast
qed

section \<open>Claims about the cached query function\<close>

text \<open>
  C4: once \<open>run_query\<close> has been called with a query text, every later call with the
  same text returns the result of the first call and leaves the session as it is: no
  execution against the database is added. This holds whatever calls were made in
  between and whatever the database answers by then.
\<close>

theorem run_query_cached:
  "run_query db' q (run_queries calls (snd (run_query db q s)))
     = (fst (run_query db q s), run_queries calls (snd (run_query db q s)))"
  by (rule run_query_hit, rule run_queries_keeps, rule run_query_stores)

theorem run_query_cached_witness:
  "run_query answering_db ''SELECT 1''
     (run_queries [(answering_db, ''SELECT 2'')] (snd (run_query broken_db ''SELECT 1'' new_session)))
   = (DataFrame,
      \<lparr>cache = [''SELECT 1'' \<mapsto> DataFrame, ''SELECT 2'' \<mapsto> [(''total_orders'', [PInt 3])]],
       executions = [''SELECT 1'', ''SELECT 2''],
       errors = [''Database error: no such table: orders'']\<rparr>)"
proof -
  have b: "run_queries [(answering_db, ''SELECT 2'')] (snd (run_query broken_db ''SELECT 1'' new_session))
         = \<lparr>cache = [''SELECT 1'' \<mapsto> DataFrame, ''SELECT 2'' \<mapsto> [(''total_orders'', [PInt 3])]],
       executions = [''SELECT 1'', ''SELECT 2''],
       errors = [''Database error: no such table: orders'']\<rparr>"
    unfolding broken_first_call
    by (simp add: run_query_def run_query_body_def answering_db_def Let_def)
  show ?thesis
    using run_query_cached [of answering_db "''SELECT 1''" "[(answering_db, ''SELECT 2'')]"
        broken_db new_session]
    unfolding b by (simp add: broken_first_call)
qed

text \<open>
  C1, as the claim states it, fails: the result of a failed execution is stored. After
  a first call on a database where the query fails, the cache holds the empty frame for
  the query text, and a second call with the same text, made when the database would
  answer, returns the empty frame and executes nothing: the only execution recorded is
  the first one.
\<close>

theorem run_query_failure_is_cached:
  "cache (snd (run_query broken_db ''SELECT 1'' new_session)) ''SELECT 1'' = Some DataFrame
   \<and> run_query answering_db ''SELECT 1'' (snd (run_query broken_db ''SELECT 1'' new_session))
       = (DataFrame, snd (run_query broken_db ''SELECT 1'' new_session))
   \<and> executions (snd (run_query answering_db ''SELECT 1''
        (snd (run_query broken_db ''SELECT 1'' new_session)))) = [''SELECT 1'']"
  by (simp add: run_query_def run_query_body_def new_session_def broken_db_def Let_def)

text \<open>
  C1, amended: when the execution of a query that has no cache entry raises, \<open>run_query\<close>
  shows the error (\<open>Database error: \<close> and the message), returns the empty frame and
  raises nothing; the query was executed once. The empty frame is stored under the query
  text like any other result, so a later call with the same text returns the empty frame
  from the cache and does not execute against the database again.
\<close>

theorem run_query_failure:
  assumes "cache s q = None" and "db q = Inl msg"
  shows "fst (run_query db q s) = DataFrame
    \<and> errors (snd (run_query db q s)) = errors s @ [''Database error: '' @ msg]
    \<and> executions (snd (run_query db q s)) = executions s @ [q]
    \<and> cache (snd (run_query db q s)) = (cache s)(q \<mapsto> DataFrame)
    \<and> run_query db' q (run_queries calls (snd (run_query db q s)))
           = (DataFrame, run_queries calls (snd (run_query db q s)))"
proof -
  have r: "fst (run_query db q s) = DataFrame"
    using assms by (simp add: run_query_def run_query_body_def Let_def)
  have e: "errors (snd (run_query db q s)) = errors s @ [''Database error: '' @ msg]"
    using assms by (simp add: run_query_def run_query_body_def Let_def)
  have x: "executions (snd (run_query db q s)) = executions s @ [q]"
    using assms by (simp add: run_query_def run_query_body_def Let_def)
  have c: "cache (snd (run_query db q s)) = (cache s)(q \<mapsto> DataFrame)"
    using assms by (simp add: run_query_def run_query_body_def Let_def)
  have "cache (run_queries calls (snd (run_query db q s))) q = Some DataFrame"
    using run_queries_keeps [OF run_query_stores] r by metis
  then have "run_query db' q (run_queries calls (snd (run_query db q s)))
           = (DataFrame, run_queries calls (snd (run_query db q s)))"
    by (rule run_query_hit)
  with r e x c show ?thesis by simp
qed

theorem run_query_failure_witness:
  "cache new_session ''SELECT 1'' = None
   \<and> broken_db ''SELECT 1'' = Inl ''no such table: orders''
   \<and> fst (run_query broken_db ''SELECT 1'' new_session) = DataFrame
   \<and> errors (snd (run_query broken_db ''SELECT 1'' new_session))
       = [''Database error: no such table: orders'']
   \<and> executions (snd (run_query broken_db ''SELECT 1'' new_session)) = [''SELECT 1'']
   \<and> run_query answering_db ''SELECT 1''
        (run_queries [] (snd (run_query broken_db ''SELECT 1'' new_session)))
       = (DataFrame, snd (run_query broken_db ''SELECT 1'' new_session))"
proof -
  have h1: "cache new_session ''SELECT 1'' = None" by (simp add: new_session_def)
  have h2: "broken_db ''SELECT 1'' = Inl ''no such table: orders''" by (simp add: broken_db_def)
  from run_query_failure [of new_session "''SELECT 1''" broken_db "''no such table: orders''"
      answering_db "[]", OF h1 h2] h1 h2
  show ?thesis
    by (simp add: new_session_def)
qed

section \<open>Properties of grouping and ordering\<close>

lemma group_by_Nil [simp]: "group_by key [] = []"
  by (simp add: group_by_def)









lemma order_by_desc_mset [simp]: "mset (order_by_desc key rows) = mset rows"
  by (simp add: order_by_desc_def)

lemma order_by_desc_set [simp]: "set (order_by_desc key rows) = set rows"
  by (simp add: order_by_desc_def)

lemma order_by_desc_Nil [simp]: "order_by_desc key [] = []"
  by (simp add: order_by_desc_def)

lemma order_by_Nil [simp]: "order_by key [] = []"
  by (simp add: order_by_def)

lemma limit_Nil [simp]: "limit n [] = []"
  by (simp add: limit_def)



section \<open>Properties of the row sources\<close>




lemma date_filter_AllTime [simp]: "date_filter eng AllTime ord"
  by (simp add: date_filter_def)

lemma from_orders_filter:
  "from_orders eng r db = filter (date_filter eng r) (from_orders eng AllTime db)"
  by (simp add: from_orders_def)

lemma concat_map_filter_fst:
  "concat (map (\<lambda>x. concat (map (\<lambda>y. if c x y then if F x then [(x, y)] else [] else []) ys)) xs)
     = filter (\<lambda>xy. F (fst xy)) (concat (map (\<lambda>x. concat (map (\<lambda>y. if c x y then [(x, y)] else []) ys)) xs))"
proof -
  have inner: "concat (map (\<lambda>y. if c x y then if F x then [(x, y)] else [] else []) ys)
     = filter (\<lambda>xy. F (fst xy)) (concat (map (\<lambda>y. if c x y then [(x, y)] else []) ys))" for x
    by (induction ys) auto
  show ?thesis
    by (induction xs) (simp_all add: inner)
qed

lemma from_orders_products_filter:
  "from_orders_products eng r db
     = filter (\<lambda>op. date_filter eng r (fst op)) (from_orders_products eng AllTime db)"
  unfolding from_orders_products_def
  using concat_map_filter_fst [of "\<lambda>ord p. o_product_id ord = p_product_id p" "date_filter eng r"
      "products db" "orders db"]
  by (simp cong: if_cong)

lemma concat_map_filter_fst3:
  fixes xs :: "'a list" and ys :: "'b list" and zs :: "'c list"
  shows "concat (map (\<lambda>x. concat (map (\<lambda>y. if c x y
        then concat (map (\<lambda>z. if d x z then if F x then [(x, y, z)] else [] else []) zs) else []) ys)) xs)
     = filter (\<lambda>xyz. F (fst xyz))
        (concat (map (\<lambda>x. concat (map (\<lambda>y. if c x y
           then concat (map (\<lambda>z. if d x z then [(x, y, z)] else []) zs) else []) ys)) xs))"
proof -
  have inner: "concat (map (\<lambda>z. if d x z then if F x then [(x, y, z)] else [] else []) zs)
     = filter (\<lambda>xyz. F (fst xyz)) (concat (map (\<lambda>z. if d x z then [(x, y, z)] else []) zs))"
    for x :: 'a and y :: 'b
    by (induction zs) auto
  have middle: "concat (map (\<lambda>y. if c x y
        then concat (map (\<lambda>z. if d x z then if F x then [(x, y, z)] else [] else []) zs) else []) ys)
     = filter (\<lambda>xyz. F (fst xyz)) (concat (map (\<lambda>y. if c x y
           then concat (map (\<lambda>z. if d x z then [(x, y, z)] else []) zs) else []) ys))" for x
    by (induction ys) (simp_all add: inner)
  show ?thesis
    by (induction xs) (simp_all add: middle)
qed

lemma from_orders_customers_products_filter:
  "from_orders_customers_products eng r db
     = filter (\<lambda>ocp. date_filter eng r (fst ocp)) (from_orders_customers_products eng AllTime db)"
  unfolding from_orders_customers_products_def
  using concat_map_filter_fst3 [of "\<lambda>ord c. o_customer_id ord = c_customer_id c"
      "\<lambda>ord p. o_product_id ord = p_product_id p" "date_filter eng r"
      "products db" "customers db" "orders db"]
  by (simp cong: if_cong)

lemma date_filter_lower_bound:
  "date_filter eng r ord \<Longrightarrow> o_order_date ord \<le> o_order_date ord' \<Longrightarrow> date_filter eng r ord'"
  by (cases r) (auto simp: date_filter_def)

lemma from_orders_empty:
  "orders db = [] \<Longrightarrow> from_orders eng r db = []"
  by (simp add: from_orders_def)

lemma from_orders_products_empty:
  "orders db = [] \<Longrightarrow> from_orders_products eng r db = []"
  by (simp add: from_orders_products_def)

lemma from_orders_customers_products_empty:
  "orders db = [] \<Longrightarrow> from_orders_customers_products eng r db = []"
  by (simp add: from_orders_customers_products_def)

lemmas empty_sources =
  from_orders_empty from_orders_products_empty from_orders_customers_products_empty

section \<open>Properties of the aggregates\<close>




lemma round_decimals_error: "\<bar>round_decimals n x - x\<bar> \<le> 1 / (2 * 10 ^ n)"
proof -
  define y where "y = \<bar>x\<bar> * 10 ^ n"
  define m where "m = \<lfloor>y + 1 / 2\<rfloor>"
  have m: "of_int m \<le> y + 1 / 2" "y + 1 / 2 < of_int m + 1"
    unfolding m_def by linarith+
  then have d: "\<bar>of_int m - y\<bar> \<le> 1 / 2" by linarith
  have p: "(0::rat) < 10 ^ n" by simp
  have "round_decimals n x - x = sgn x * (of_int m - y) / 10 ^ n"
  proof -
    have "x = sgn x * \<bar>x\<bar>" by (simp add: sgn_if)
    then have "x = sgn x * y / 10 ^ n" by (simp add: y_def)
    then have "round_decimals n x - x = sgn x * of_int m / 10 ^ n - sgn x * y / 10 ^ n"
      by (simp add: round_decimals_def y_def [symmetric] m_def [symmetric])
    then show ?thesis by (simp add: right_diff_distrib diff_divide_distrib)
  qed
  then have "\<bar>round_decimals n x - x\<bar> = \<bar>sgn x\<bar> * \<bar>of_int m - y\<bar> / 10 ^ n"
    by (simp add: abs_mult)
  also have "\<dots> \<le> 1 * (1 / 2) / 10 ^ n"
    using d by (intro divide_right_mono mult_mono) (simp_all add: sgn_if)
  finally show ?thesis by simp
qed

lemma round_decimals_grid: "\<exists>k::int. round_decimals n x = of_int k / 10 ^ n"
proof -
  define m where "m = \<lfloor>\<bar>x\<bar> * 10 ^ n + 1 / 2\<rfloor>"
  have "sgn x * of_int m = of_int ((if x < 0 then - 1 else if x = 0 then 0 else 1) * m)"
    by (simp add: sgn_if)
  then show ?thesis unfolding round_decimals_def m_def [symmetric] by metis
qed








section \<open>The example database, evaluated\<close>

lemmas shop_eval =
  shop_database_def empty_database_def example_engine_def asha_def ben_def laptop_def pen_def
  voucher_def order100_def order101_def order102_def order103_def
  from_orders_def from_orders_products_def from_orders_customers_products_def date_filter_def
  line_total_def line_total3_def sql_sum_def sql_avg_def count_distinct_def group_by_def
  order_by_def order_by_desc_def limit_def sql_div_def sql_round_def round_decimals_def

lemma shop_performance:
  "product_performance_df example_engine AllTime shop_database =
     [\<lparr>pp_product_name = ''Laptop'', pp_category = ''Electronics'', pp_price = 60000,
       units_sold = 1, total_revenue = 60000, unique_customers = 1,
       avg_selling_price = Some 60000\<rparr>,
      \<lparr>pp_product_name = ''Pen'', pp_category = ''Stationery'', pp_price = 25 / 2,
       units_sold = 6, total_revenue = 75, unique_customers = 2,
       avg_selling_price = Some (25 / 2)\<rparr>,
      \<lparr>pp_product_name = ''Voucher'', pp_category = ''Gifts'', pp_price = 500,
       units_sold = 0, total_revenue = 0, unique_customers = 1,
       avg_selling_price = None\<rparr>]"
  by (simp add: product_performance_df_def shop_eval)



section \<open>Claims about the queries\<close>

text \<open>
  C2, as the claim states it, fails: an aggregate query without \<open>GROUP BY\<close> returns one
  row whatever the tables hold. On the empty database the total-revenue query returns
  the row whose only cell is NULL, which pandas hands over as \<open>None\<close>; the frame is not
  empty.
\<close>

theorem revenue_df_not_empty:
  "revenue_df example_engine AllTime empty_database = [(''total_revenue'', [PNone])]
   \<and> \<not> df_empty (revenue_df example_engine AllTime empty_database)"
  by (simp add: revenue_df_def total_revenue_sql_def from_orders_products_def empty_database_def
      sql_sum_def py_real_def df_empty_def)

text \<open>
  C2, amended: when the orders table is empty, no query raises. The four KPI queries
  (aggregates without \<open>GROUP BY\<close>) each return one row: NULL for the total revenue and
  the average order value, 0 for the two counts. The seven grouped or listing queries
  return no row. Every KPI shows its zero display: the rupee sign followed by \<open>0\<close> for the
  two amounts (through the \<open>None\<close> guard of \<open>format_currency\<close>), \<open>0\<close> for the two counts.
\<close>

theorem empty_orders_results:
  assumes "orders db = []"
  shows "revenue_df eng r db = [(''total_revenue'', [PNone])]
    \<and> orders_df eng r db = [(''total_orders'', [PInt 0])]
    \<and> customers_df eng r db = [(''total_customers'', [PInt 0])]
    \<and> aov_df eng r db = [(''avg_order_value'', [PNone])]
    \<and> monthly_df eng r db = []
    \<and> top_products_df eng r db = []
    \<and> country_df eng r db = []
    \<and> customer_segments_df eng r db = []
    \<and> top_customers_df eng r db = []
    \<and> product_performance_df eng r db = []
    \<and> recent_orders_df eng r db = []
    \<and> kpi_total_revenue (revenue_df eng r db) = Inr (rupee @ ''0'')
    \<and> kpi_total_orders (orders_df eng r db) = Inr ''0''
    \<and> kpi_total_customers (customers_df eng r db) = Inr ''0''
    \<and> kpi_avg_order_value (aov_df eng r db) = Inr (rupee @ ''0'')"
proof -
  note src = empty_sources [OF assms]
  have q1: "revenue_df eng r db = [(''total_revenue'', [PNone])]"
    by (simp add: revenue_df_def total_revenue_sql_def src sql_sum_def py_real_def)
  have q2: "orders_df eng r db = [(''total_orders'', [PInt 0])]"
    by (simp add: orders_df_def total_orders_sql_def src count_distinct_def)
  have q3: "customers_df eng r db = [(''total_customers'', [PInt 0])]"
    by (simp add: customers_df_def total_customers_sql_def src count_distinct_def)
  have q4: "aov_df eng r db = [(''avg_order_value'', [PNone])]"
    by (simp add: aov_df_def avg_order_value_sql_def order_totals_def src sql_avg_def py_real_def)
  have q5: "monthly_df eng r db = []"
    by (simp add: monthly_df_def src)
  have q6: "top_products_df eng r db = []"
    by (simp add: top_products_df_def src)
  have q7: "country_df eng r db = []"
    by (simp add: country_df_def src)
  have q8: "customer_segments_df eng r db = []"
    by (simp add: customer_segments_df_def customer_totals_def src)
  have q9: "top_customers_df eng r db = []"
    by (simp add: top_customers_df_def src)
  have q10: "product_performance_df eng r db = []"
    by (simp add: product_performance_df_def src)
  have q11: "recent_orders_df eng r db = []"
    by (simp add: recent_orders_df_def src)
  have k1: "kpi_total_revenue [(''total_revenue'', [PNone])] = Inr (rupee @ ''0'')"
    by (simp add: kpi_total_revenue_def first_or_zero_def df_empty_def getitem_def iloc0_def
        format_currency_def)
  have k2: "kpi_total_orders [(''total_orders'', [PInt 0])] = Inr ''0''"
    by (simp add: kpi_total_orders_def first_or_zero_def df_empty_def getitem_def iloc0_def
        format_number_def float_eval)
  have k3: "kpi_total_customers [(''total_customers'', [PInt 0])] = Inr ''0''"
    by (simp add: kpi_total_customers_def first_or_zero_def df_empty_def getitem_def iloc0_def
        format_number_def float_eval)
  have k4: "kpi_avg_order_value [(''avg_order_value'', [PNone])] = Inr (rupee @ ''0'')"
    by (simp add: kpi_avg_order_value_def first_or_zero_def df_empty_def getitem_def iloc0_def
        format_currency_def)
  show ?thesis
    unfolding q1 q2 q3 q4 q5 q6 q7 q8 q9 q10 q11 k1 k2 k3 k4 by simp
qed

theorem empty_orders_results_witness:
  "orders empty_database = []
   \<and> revenue_df example_engine Last30Days empty_database = [(''total_revenue'', [PNone])]
   \<and> orders_df example_engine Last30Days empty_database = [(''total_orders'', [PInt 0])]
   \<and> product_performance_df example_engine Last30Days empty_database = []
   \<and> kpi_total_revenue (revenue_df example_engine Last30Days empty_database) = Inr (rupee @ ''0'')
   \<and> kpi_total_orders (orders_df example_engine Last30Days empty_database) = Inr ''0''"
proof -
  have h: "orders empty_database = []" by (simp add: empty_database_def)
  from empty_orders_results [OF h, of example_engine Last30Days] h show ?thesis by blast
qed



text \<open>
  C6: for each of the three row sources (FROM and WHERE clauses) that the aggregates are
  computed from, and every date range, in particular the last 30 days, the rows that
  contribute are among the rows that contribute for all time: they are the all-time
  rows filtered by the date predicate. The predicate is a lower bound on the order date:
  an order that passes it still passes with any later date.
\<close>

theorem date_filter_narrows:
  "set (from_orders eng r db) \<subseteq> set (from_orders eng AllTime db)
   \<and> set (from_orders_products eng r db) \<subseteq> set (from_orders_products eng AllTime db)
   \<and> set (from_orders_customers_products eng r db)
        \<subseteq> set (from_orders_customers_products eng AllTime db)
   \<and> from_orders eng r db = filter (date_filter eng r) (from_orders eng AllTime db)
   \<and> from_orders_products eng r db
        = filter (\<lambda>op. date_filter eng r (fst op)) (from_orders_products eng AllTime db)
   \<and> from_orders_customers_products eng r db
        = filter (\<lambda>ocp. date_filter eng r (fst ocp)) (from_orders_customers_products eng AllTime db)
   \<and> (date_filter eng r ord \<and> o_order_date ord \<le> o_order_date ord' \<longrightarrow> date_filter eng r ord')"
proof -
  have "set (from_orders eng r db) \<subseteq> set (from_orders eng AllTime db)"
    by (subst from_orders_filter) simp
  moreover have "set (from_orders_products eng r db) \<subseteq> set (from_orders_products eng AllTime db)"
    by (subst from_orders_products_filter) simp
  moreover have "set (from_orders_customers_products eng r db)
        \<subseteq> set (from_orders_customers_products eng AllTime db)"
    by (subst from_orders_customers_products_filter) simp
  ultimately show ?thesis
    using from_orders_filter from_orders_products_filter from_orders_customers_products_filter
      date_filter_lower_bound
    by blast
qed

theorem date_filter_narrows_witness:
  "from_orders example_engine Last30Days shop_database = [order100, order102, order103]
   \<and> from_orders example_engine AllTime shop_database = [order100, order101, order102, order103]
   \<and> set [order100, order102, order103] \<subseteq> set [order100, order101, order102, order103]
   \<and> date_filter example_engine Last30Days order100
   \<and> o_order_date order100 \<le> o_order_date order102
   \<and> date_filter example_engine Last30Days order102"
proof -
  have a: "from_orders example_engine Last30Days shop_database = [order100, order102, order103]"
    by (simp add: from_orders_def date_filter_def shop_database_def example_engine_def
        order100_def order101_def order102_def order103_def)
  have b: "from_orders example_engine AllTime shop_database = [order100, order101, order102, order103]"
    by (simp add: from_orders_def date_filter_def shop_database_def)
  have c: "date_filter example_engine Last30Days order100
      \<and> o_order_date order100 \<le> o_order_date order102"
    by (simp add: date_filter_def example_engine_def order100_def order102_def)
  from date_filter_narrows [of example_engine Last30Days shop_database order100 order102]
  have "set (from_orders example_engine Last30Days shop_database)
          \<subseteq> set (from_orders example_engine AllTime shop_database)"
    and "date_filter example_engine Last30Days order100
      \<and> o_order_date order100 \<le> o_order_date order102
      \<longrightarrow> date_filter example_engine Last30Days order102"
    by blast+
  with c have "set [order100, order102, order103] \<subseteq> set [order100, order101, order102, order103]"
    and "date_filter example_engine Last30Days order102"
    unfolding a b by blast+
  with a b c show ?thesis by blast
qed



text \<open>
  C8: in every row of the product-performance result, the average selling price is the
  total revenue divided by the units sold, rounded to two decimals, when the units sold
  are positive; it is NULL, and nothing is raised, when the units sold are zero. Rounded
  to two decimals means: a multiple of 1/100 at most 1/200 away.
\<close>

theorem avg_selling_price_defined:
  "\<forall>row \<in> set (product_performance_df eng r db).
     (0 < units_sold row \<longrightarrow>
        avg_selling_price row
          = Some (round_decimals 2 (total_revenue row / of_int (units_sold row))))
     \<and> (units_sold row = 0 \<longrightarrow> avg_selling_price row = None)
     \<and> (\<forall>v. avg_selling_price row = Some v \<longrightarrow>
          \<bar>v - total_revenue row / of_int (units_sold row)\<bar> \<le> 1 / 200
          \<and> (\<exists>k::int. v = of_int k / 100))"
proof
  fix row assume "row \<in> set (product_performance_df eng r db)"
  then have a: "avg_selling_price row
      = sql_round (sql_div (total_revenue row * 1) (of_int (units_sold row))) 2"
    by (auto simp: product_performance_df_def)
  have e: "\<bar>round_decimals 2 x - x\<bar> \<le> 1 / 200" for x
    using round_decimals_error [of 2 x] by simp
  have g: "\<exists>k::int. round_decimals 2 x = of_int k / 100" for x
    using round_decimals_grid [of 2 x] by simp
  show "(0 < units_sold row \<longrightarrow>
        avg_selling_price row
          = Some (round_decimals 2 (total_revenue row / of_int (units_sold row))))
     \<and> (units_sold row = 0 \<longrightarrow> avg_selling_price row = None)
     \<and> (\<forall>v. avg_selling_price row = Some v \<longrightarrow>
          \<bar>v - total_revenue row / of_int (units_sold row)\<bar> \<le> 1 / 200
          \<and> (\<exists>k::int. v = of_int k / 100))"
    unfolding a using e g by (auto simp: sql_round_def sql_div_def)
qed

theorem avg_selling_price_defined_witness:
  "\<lparr>pp_product_name = ''Pen'', pp_category = ''Stationery'', pp_price = 25 / 2,
       units_sold = 6, total_revenue = 75, unique_customers = 2,
       avg_selling_price = Some (round_decimals 2 (75 / of_int 6))\<rparr>
     \<in> set (product_performance_df example_engine AllTime shop_database)
   \<and> \<lparr>pp_product_name = ''Voucher'', pp_category = ''Gifts'', pp_price = 500,
       units_sold = 0, total_revenue = 0, unique_customers = 1,
       avg_selling_price = None\<rparr>
     \<in> set (product_performance_df example_engine AllTime shop_database)"
proof -
  let ?pen = "\<lparr>pp_product_name = ''Pen'', pp_category = ''Stationery'', pp_price = 25 / 2,
       units_sold = 6, total_revenue = 75, unique_customers = 2,
       avg_selling_price = Some (25 / 2)\<rparr>"
  let ?voucher = "\<lparr>pp_product_name = ''Voucher'', pp_category = ''Gifts'', pp_price = 500,
       units_sold = 0, total_revenue = 0, unique_customers = 1,
       avg_selling_price = None\<rparr>"
  have p: "?pen \<in> set (product_performance_df example_engine AllTime shop_database)"
    and v: "?voucher \<in> set (product_performance_df example_engine AllTime shop_database)"
    by (simp_all add: shop_performance)
  from avg_selling_price_defined [of example_engine AllTime shop_database] p
  have "avg_selling_price ?pen = Some (round_decimals 2 (total_revenue ?pen / of_int (units_sold ?pen)))"
    by fastforce
  then have "Some (25 / 2) = Some (round_decimals 2 (75 / of_int 6))" by simp
  with p v show ?thesis by simp
qed

end
